theory Spec2Isabelle
  imports Complex_Main "HOL-Library.Sublist"
begin

section \<open>Text, as the dashboard script sees it\<close>

text \<open>
  The script \<^verbatim>\<open>project.py\<close> reads a spreadsheet into a pandas table and works on
  its columns. Python text is a sequence of code points; here a \<^typ>\<open>string\<close> is a
  sequence of code points below 256 (the Latin-1 range), so \<^const>\<open>length\<close>,
  \<^const>\<open>take\<close> and \<^const>\<open>sublist\<close> count what Python's \<^verbatim>\<open>len\<close>, slicing and
  \<^verbatim>\<open>in\<close> count.

  A cell of the \<^verbatim>\<open>Post\<close> column is text or empty (pandas' \<^verbatim>\<open>NaN\<close>):
  \<^typ>\<open>string option\<close>. Both \<^verbatim>\<open>str(post)\<close> and \<^verbatim>\<open>.astype(str)\<close> turn the empty
  cell into the three letters \<^verbatim>\<open>nan\<close> (pandas 2, where \<^verbatim>\<open>astype(str)\<close> gives a column
  of Python strings).
\<close>

definition py_str :: "string option \<Rightarrow> string" where
  "py_str post = (case post of None \<Rightarrow> ''nan'' | Some s \<Rightarrow> s)"

text \<open>
  \<^verbatim>\<open>str.lower()\<close> on one code point below 256: the letters A-Z and the accented
  capitals 192-222 (without the multiplication sign 215) move up by 32.
\<close>

definition lower_char :: "char \<Rightarrow> char" where
  "lower_char c =
     (let n = (of_char c :: nat)
      in if (65 \<le> n \<and> n \<le> 90) \<or> (192 \<le> n \<and> n \<le> 222 \<and> n \<noteq> 215)
         then char_of (n + 32) else c)"

definition lower :: "string \<Rightarrow> string" where
  "lower s = map lower_char s"

text \<open>
  The class \<^verbatim>\<open>\w\<close> of Python's \<^verbatim>\<open>re\<close> on text: the underscore and every
  alphanumeric code point; below 256 these are the digits, the ASCII letters, and the
  Latin-1 letters and numeric signs listed here.
\<close>

definition is_word_char :: "char \<Rightarrow> bool" where
  "is_word_char c =
     (let n = (of_char c :: nat)
      in (48 \<le> n \<and> n \<le> 57) \<or> (65 \<le> n \<and> n \<le> 90) \<or> n = 95 \<or> (97 \<le> n \<and> n \<le> 122)
         \<or> n = 170 \<or> n = 178 \<or> n = 179 \<or> n = 181 \<or> n = 185 \<or> n = 186
         \<or> (188 \<le> n \<and> n \<le> 190) \<or> (192 \<le> n \<and> n \<le> 214)
         \<or> (216 \<le> n \<and> n \<le> 246) \<or> (248 \<le> n \<and> n \<le> 255))"

section \<open>Derived columns\<close>

subsection \<open>Short Post (line 74)\<close>

text \<open>
  \<^verbatim>\<open>df['Short Post'] = df['Post'].astype(str).str.slice(0, 25) + "..."\<close>
\<close>

definition short_post :: "string option \<Rightarrow> string" where
  "short_post post = take 25 (py_str post) @ ''...''"

subsection \<open>Post Type (lines 77-86)\<close>

definition educational_keywords :: "string list" where
  "educational_keywords =
     [''learn'', ''educational'', ''knowledge'', ''tips'', ''tutorial'', ''training'', ''course'']"

text \<open>
  \<^verbatim>\<open>
  def classify_post_type(post):
      post = str(post).lower()
      if any(keyword in post for keyword in educational_keywords):
          return 'Educational'
      else:
          return 'Other'
  \<close>
  Python's \<^verbatim>\<open>in\<close> on text is the contiguous-substring test \<^const>\<open>sublist\<close>.
\<close>

definition classify_post_type :: "string option \<Rightarrow> string" where
  "classify_post_type post =
     (let post = lower (py_str post)
      in if list_ex (\<lambda>keyword. sublist keyword post) educational_keywords
         then ''Educational'' else ''Other'')"

subsection \<open>Hashtags (line 93)\<close>

text \<open>
  \<^verbatim>\<open>df['Hashtags'] = df['Post'].astype(str).apply(lambda x: [tag for tag in re.findall(r"#\w+", x)])\<close>

  \<^verbatim>\<open>re.findall\<close> scans from the left. At a \<^verbatim>\<open>#\<close> followed by a word character the
  greedy \<^verbatim>\<open>\w+\<close> takes the longest run of word characters, the match is recorded and the
  scan goes on behind it; anywhere else the scan moves one character on.
\<close>

function findall_hashtag :: "string \<Rightarrow> string list" where
  "findall_hashtag [] = []"
| "findall_hashtag (c # cs) =
     (if c = CHR ''#'' \<and> takeWhile is_word_char cs \<noteq> []
      then (c # takeWhile is_word_char cs) # findall_hashtag (dropWhile is_word_char cs)
      else findall_hashtag cs)"
  by pat_completeness auto
termination
  by (relation "measure length") (auto simp: length_dropWhile_le less_Suc_eq_le)

definition hashtags :: "string option \<Rightarrow> string list" where
  "hashtags post = findall_hashtag (py_str post)"

section \<open>The uploaded table\<close>

text \<open>
  Exceptions are values: \<open>Raised name\<close> is an exception of the class \<open>name\<close> leaving the
  expression that raised it. Nothing in the script catches an exception.
\<close>

datatype py_error = Raised string

abbreviation ValueError :: py_error where "ValueError \<equiv> Raised ''ValueError''"
abbreviation KeyError :: py_error where "KeyError \<equiv> Raised ''KeyError''"
abbreviation IndexError :: py_error where "IndexError \<equiv> Raised ''IndexError''"

text \<open>
  A cell of a numeric or date column, as \<^verbatim>\<open>read_excel\<close> delivers it: a value of the
  column's kind, some text, or nothing. A number in a cell is a rational, as every int64
  and every finite float64 is; a timestamp is a count of nanoseconds since the epoch. A
  converted column is a float or datetime column, where \<open>None\<close> is \<^verbatim>\<open>NaN\<close> or
  \<^verbatim>\<open>NaT\<close>. What numpy computes from the cells of a column is set out with the metrics.
\<close>

datatype 'a cell = Val 'a | Str string | Null

record ('d, 'i, 'm) post_row =
  Date :: 'd
  Post :: "string option"
  Likes :: 'm
  Comments :: 'm
  Shares :: 'm
  Clicks :: 'm
  Impressions :: 'i

type_synonym raw_row = "(int cell, rat cell, rat cell) post_row"
type_synonym dated_row = "(int option, rat option, rat cell) post_row"

record scored_row = "(int option, rat option, rat option) post_row" +
  Total_Engagement :: "rat option"

text \<open>
  The upload: the rows with the columns the script indexes without a test, and the two
  columns it tests for, \<open>None\<close> when the sheet has no such column.
\<close>

record upload =
  Platform :: "string option list option"
  Person :: "string option list option"
  table :: "raw_row list"

section \<open>Coercion (lines 25-26 and 55-58)\<close>

text \<open>
  \<^verbatim>\<open>pd.to_numeric(col, errors=...)\<close> and \<^verbatim>\<open>pd.to_datetime(col, errors=...)\<close>. Which texts
  read as a number or as a date is decided inside pandas; that parser is the parameter
  \<open>parse\<close>. With \<^verbatim>\<open>errors='raise'\<close> (the default) a text that does not parse raises
  \<^verbatim>\<open>ValueError\<close>; with \<^verbatim>\<open>errors='coerce'\<close> it becomes \<^verbatim>\<open>NaN\<close> or \<^verbatim>\<open>NaT\<close>.
\<close>

datatype errors_mode = Raise | Coerce

fun convert_cell :: "(string \<Rightarrow> 'a option) \<Rightarrow> errors_mode \<Rightarrow> 'a cell \<Rightarrow> py_error + 'a option" where
  "convert_cell parse errors (Val x) = Inr (Some x)"
| "convert_cell parse errors Null = Inr None"
| "convert_cell parse errors (Str s) =
     (case parse s of
        Some x \<Rightarrow> Inr (Some x)
      | None \<Rightarrow> (case errors of Coerce \<Rightarrow> Inr None | Raise \<Rightarrow> Inl ValueError))"

fun convert_column :: "(string \<Rightarrow> 'a option) \<Rightarrow> errors_mode \<Rightarrow> 'a cell list \<Rightarrow> py_error + 'a option list" where
  "convert_column parse errors [] = Inr []"
| "convert_column parse errors (c # cs) =
     (case convert_cell parse errors c of
        Inl e \<Rightarrow> Inl e
      | Inr v \<Rightarrow> (case convert_column parse errors cs of Inl e \<Rightarrow> Inl e | Inr vs \<Rightarrow> Inr (v # vs)))"

definition to_numeric :: "(string \<Rightarrow> rat option) \<Rightarrow> errors_mode \<Rightarrow> rat cell list \<Rightarrow> py_error + rat option list" where
  "to_numeric = convert_column"

definition to_datetime :: "(string \<Rightarrow> int option) \<Rightarrow> errors_mode \<Rightarrow> int cell list \<Rightarrow> py_error + int option list" where
  "to_datetime = convert_column"

text \<open>
  Lines 25-26:
  \<^verbatim>\<open>
  df['Impressions'] = pd.to_numeric(df['Impressions'], errors='coerce')
  df['Date'] = pd.to_datetime(df['Date'], errors='coerce')
  \<close>
  A converted column is written back row by row.
\<close>

definition coerce_impressions_date ::
  "(string \<Rightarrow> rat option) \<Rightarrow> (string \<Rightarrow> int option) \<Rightarrow> raw_row list \<Rightarrow> py_error + dated_row list" where
  "coerce_impressions_date parse_number parse_date df =
     (case to_numeric parse_number Coerce (map Impressions df) of
        Inl e \<Rightarrow> Inl e
      | Inr impressions \<Rightarrow>
     (case to_datetime parse_date Coerce (map Date df) of
        Inl e \<Rightarrow> Inl e
      | Inr dates \<Rightarrow>
          Inr (map (\<lambda>(r, i, d).
                 \<lparr>Date = d, Post = Post r, Likes = Likes r, Comments = Comments r,
                  Shares = Shares r, Clicks = Clicks r, Impressions = i\<rparr>)
               (zip df (zip impressions dates)))))"

text \<open>
  Lines 55-59:
  \<^verbatim>\<open>
  df['Likes'] = pd.to_numeric(df['Likes'], errors='coerce')
  df['Comments'] = pd.to_numeric(df['Comments'], errors='coerce')
  df['Shares'] = pd.to_numeric(df['Shares'], errors='coerce')
  df['Clicks'] = pd.to_numeric(df['Clicks'], errors='coerce')
  df['Total Engagement'] = df['Likes'] + df['Comments'] + df['Shares']
  \<close>
  Adding float columns gives \<^verbatim>\<open>NaN\<close> wherever an addend is \<^verbatim>\<open>NaN\<close>.
\<close>

definition nan_add :: "rat option \<Rightarrow> rat option \<Rightarrow> rat option" where
  "nan_add a b = (case (a, b) of (Some x, Some y) \<Rightarrow> Some (x + y) | _ \<Rightarrow> None)"

definition coerce_metrics ::
  "(string \<Rightarrow> rat option) \<Rightarrow> dated_row list \<Rightarrow> py_error + scored_row list" where
  "coerce_metrics parse_number df =
     (case to_numeric parse_number Coerce (map Likes df) of Inl e \<Rightarrow> Inl e | Inr likes \<Rightarrow>
     (case to_numeric parse_number Coerce (map Comments df) of Inl e \<Rightarrow> Inl e | Inr comments \<Rightarrow>
     (case to_numeric parse_number Coerce (map Shares df) of Inl e \<Rightarrow> Inl e | Inr shares \<Rightarrow>
     (case to_numeric parse_number Coerce (map Clicks df) of Inl e \<Rightarrow> Inl e | Inr clicks \<Rightarrow>
        Inr (map (\<lambda>(r, l, c, s, k).
               \<lparr>Date = Date r, Post = Post r, Likes = l, Comments = c, Shares = s, Clicks = k,
                Impressions = Impressions r, Total_Engagement = nan_add (nan_add l c) s\<rparr>)
             (zip df (zip likes (zip comments (zip shares clicks)))))))))"

section \<open>Platform and person (lines 29-30)\<close>

text \<open>
  \<^verbatim>\<open>
  platform = df['Platform'].dropna().iloc[0] if 'Platform' in df.columns else "Unknown"
  person = df['Person'].dropna().iloc[0] if 'Person' in df.columns else "N/A"
  \<close>
  \<^verbatim>\<open>.iloc[0]\<close> on a column without entries raises \<^verbatim>\<open>IndexError\<close>.
\<close>

definition dropna :: "'a option list \<Rightarrow> 'a list" where
  "dropna col = [x. Some x \<leftarrow> col]"

definition iloc0 :: "'a list \<Rightarrow> py_error + 'a" where
  "iloc0 col = (case col of [] \<Rightarrow> Inl IndexError | x # _ \<Rightarrow> Inr x)"

definition platform :: "upload \<Rightarrow> py_error + string" where
  "platform u = (case Platform u of Some col \<Rightarrow> iloc0 (dropna col) | None \<Rightarrow> Inr ''Unknown'')"

definition person :: "upload \<Rightarrow> py_error + string" where
  "person u = (case Person u of Some col \<Rightarrow> iloc0 (dropna col) | None \<Rightarrow> Inr ''N/A'')"

section \<open>Filters\<close>

subsection \<open>Date range (lines 43-47)\<close>

text \<open>
  \<^verbatim>\<open>st.date_input\<close> with a pair as its value hands back a tuple of the dates picked so
  far (none, one or two); with a single value it hands back one date. A date is a count of
  days since the epoch; \<^verbatim>\<open>pd.to_datetime\<close> of a date is the timestamp of its midnight.
\<close>

datatype date_input = Single int | Tuple "int list"

definition timestamp_of_date :: "int \<Rightarrow> int" where
  "timestamp_of_date d = d * 86400000000000"

text \<open>
  Line 45:
  \<^verbatim>\<open>df = df[(df['Date'] >= pd.to_datetime(start_date)) & (df['Date'] <= pd.to_datetime(end_date))]\<close>
  A comparison with \<^verbatim>\<open>NaT\<close> is false.
\<close>

definition date_in_range :: "int \<Rightarrow> int \<Rightarrow> int option \<Rightarrow> bool" where
  "date_in_range start_date end_date date =
     (case date of
        None \<Rightarrow> False
      | Some t \<Rightarrow> timestamp_of_date start_date \<le> t \<and> t \<le> timestamp_of_date end_date)"

definition date_filter ::
  "int \<Rightarrow> int \<Rightarrow> (int option, 'i, 'm, 'z) post_row_scheme list \<Rightarrow> (int option, 'i, 'm, 'z) post_row_scheme list" where
  "date_filter start_date end_date df = filter (\<lambda>r. date_in_range start_date end_date (Date r)) df"

text \<open>
  \<^verbatim>\<open>
  if isinstance(date_range, tuple) and len(date_range) == 2:
      start_date, end_date = date_range
      df = df[...]
  else:
      st.warning("Please select a valid start and end date.")
  \<close>
  The result is the table that goes on and the warnings shown.
\<close>

definition select_date_range ::
  "date_input \<Rightarrow> (int option, 'i, 'm, 'z) post_row_scheme list
     \<Rightarrow> (int option, 'i, 'm, 'z) post_row_scheme list \<times> string list" where
  "select_date_range date_range df =
     (case date_range of
        Tuple [start_date, end_date] \<Rightarrow> (date_filter start_date end_date df, [])
      | _ \<Rightarrow> (df, [''Please select a valid start and end date.'']))"

subsection \<open>Keyword (lines 50-52)\<close>

text \<open>
  \<^verbatim>\<open>df['Post'].astype(str).str.contains(keyword, case=False, na=False)\<close> reads the keyword
  as a regular expression (\<^verbatim>\<open>regex=True\<close> is the default of \<^verbatim>\<open>str.contains\<close>),
  compiles it with \<^verbatim>\<open>re.IGNORECASE\<close> and keeps the rows where \<^verbatim>\<open>search\<close> finds a match.

  Of the pattern language the part written out here is the patterns built from ordinary
  characters, the dot (any character but the newline) and a backslash in front of a
  special character (that character itself); \<open>re_compile\<close> gives \<open>None\<close> for every
  other pattern.
\<close>

datatype re_atom = Literal char | AnyChar

definition re_special :: "char set" where
  "re_special = set (CHR 0x5C # ''.^$*+?{}[]|()'')"

fun re_compile :: "string \<Rightarrow> re_atom list option" where
  "re_compile [] = Some []"
| "re_compile [c] =
     (if c = CHR ''.'' then Some [AnyChar]
      else if c \<in> re_special then None
      else Some [Literal c])"
| "re_compile (c # d # ds) =
     (if c = CHR 0x5C then
        (if d \<in> re_special then map_option ((#) (Literal d)) (re_compile ds) else None)
      else if c = CHR ''.'' then map_option ((#) AnyChar) (re_compile (d # ds))
      else if c \<in> re_special then None
      else map_option ((#) (Literal c)) (re_compile (d # ds)))"

fun re_match_atom :: "re_atom \<Rightarrow> char \<Rightarrow> bool" where
  "re_match_atom (Literal c) d = (lower_char c = lower_char d)"
| "re_match_atom AnyChar d = (d \<noteq> CHR 0x0A)"

fun re_match :: "re_atom list \<Rightarrow> string \<Rightarrow> bool" where
  "re_match [] s = True"
| "re_match (a # as) [] = False"
| "re_match (a # as) (d # ds) = (re_match_atom a d \<and> re_match as ds)"

fun re_search :: "re_atom list \<Rightarrow> string \<Rightarrow> bool" where
  "re_search pat [] = re_match pat []"
| "re_search pat (d # ds) = (re_match pat (d # ds) \<or> re_search pat ds)"

text \<open>
  \<^verbatim>\<open>
  if keyword:
      df = df[df['Post'].astype(str).str.contains(keyword, case=False, na=False)]
  \<close>
  After \<^verbatim>\<open>astype(str)\<close> no cell is missing, so \<^verbatim>\<open>na=False\<close> decides nothing.

  For a pattern outside the part written out above, what Python's \<^verbatim>\<open>re\<close> does with it
  is the parameter \<open>other\<close>: the exception that compiling the pattern raises (the pattern
  is compiled before any row is looked at), or else, as a test on texts, whether
  \<^verbatim>\<open>search\<close> finds a match. What is proved below holds for every such \<open>other\<close>.
\<close>

definition keyword_filter ::
  "(string \<Rightarrow> py_error + (string \<Rightarrow> bool)) \<Rightarrow> string \<Rightarrow> ('d, 'i, 'm, 'z) post_row_scheme list
     \<Rightarrow> py_error + ('d, 'i, 'm, 'z) post_row_scheme list" where
  "keyword_filter other keyword df =
     (if keyword = [] then Inr df
      else (case re_compile keyword of
              Some pat \<Rightarrow> Inr (filter (\<lambda>r. re_search pat (py_str (Post r))) df)
            | None \<Rightarrow>
                (case other keyword of
                   Inl e \<Rightarrow> Inl e
                 | Inr found \<Rightarrow> Inr (filter (\<lambda>r. found (py_str (Post r))) df))))"

text \<open>
  What it means that a text contains a keyword as a literal substring, whatever the case
  of the letters: fold both to lower case and look for a contiguous occurrence.
\<close>

definition contains_ci :: "string \<Rightarrow> string \<Rightarrow> bool" where
  "contains_ci keyword text = sublist (lower keyword) (lower text)"

section \<open>Metrics (lines 61-72)\<close>

text \<open>
  The sums, and what is computed from them, are numbers of numpy: an int64 or a finite
  float64, both of the form \<open>m * 2 ^ e\<close>, or one of \<^verbatim>\<open>inf\<close>, \<^verbatim>\<open>-inf\<close> and \<^verbatim>\<open>nan\<close>.
\<close>

datatype np_number = Binary int int | PosInf | NegInf | NaN


text \<open>The tests \<^verbatim>\<open>x > 0\<close> and \<^verbatim>\<open>x == 0\<close> on such a number.\<close>

definition positive :: "np_number \<Rightarrow> bool" where
  "positive x = (case x of Binary m e \<Rightarrow> 0 < m | PosInf \<Rightarrow> True | _ \<Rightarrow> False)"

definition is_zero :: "np_number \<Rightarrow> bool" where
  "is_zero x = (case x of Binary m e \<Rightarrow> m = 0 | _ \<Rightarrow> False)"

text \<open>
  Which number an operation returns is decided inside numpy: how a float64 result is
  rounded, what a sum does beyond the range of its type, which hundredth \<^verbatim>\<open>round\<close>
  settles on. These operations are the parameter \<open>np\<close>; what is proved below holds for
  every such arithmetic.
\<close>

record numpy =
  np_sum :: "rat list \<Rightarrow> np_number"
  np_mean :: "rat list \<Rightarrow> np_number"
  np_add :: "np_number \<Rightarrow> np_number \<Rightarrow> np_number"
  np_true_divide :: "np_number \<Rightarrow> np_number \<Rightarrow> np_number"
  np_multiply :: "np_number \<Rightarrow> np_number \<Rightarrow> np_number"
  np_round :: "np_number \<Rightarrow> nat \<Rightarrow> np_number"

text \<open>
  \<^verbatim>\<open>Series.sum()\<close> skips \<^verbatim>\<open>NaN\<close>; the sum of nothing is 0. Whole numbers whose magnitudes
  add up to less than \<open>2 ^ 53\<close> are added without error, as int64 and as float64 and in
  any order; every other sum is what numpy makes of it. \<^verbatim>\<open>Series.mean()\<close> skips
  \<^verbatim>\<open>NaN\<close> too and is \<^verbatim>\<open>nan\<close> when nothing is left.
\<close>

definition is_whole :: "rat \<Rightarrow> bool" where
  "is_whole x = (of_int \<lfloor>x\<rfloor> = x)"

definition added_exactly :: "rat list \<Rightarrow> bool" where
  "added_exactly xs = (list_all is_whole xs \<and> sum_list (map abs xs) < 2 ^ 53)"

definition series_sum :: "numpy \<Rightarrow> rat option list \<Rightarrow> np_number" where
  "series_sum np col =
     (let xs = dropna col
      in if xs = [] then Binary 0 0
         else if added_exactly xs then Binary \<lfloor>sum_list xs\<rfloor> 0
         else np_sum np xs)"

definition series_mean :: "numpy \<Rightarrow> rat option list \<Rightarrow> np_number" where
  "series_mean np col = (let xs = dropna col in if xs = [] then NaN else np_mean np xs)"

text \<open>
  \<^verbatim>\<open>round(x, 2)\<close> leaves \<^verbatim>\<open>inf\<close> and \<^verbatim>\<open>nan\<close> as they are. A division by zero gives no
  quotient (numpy warns and hands back \<^verbatim>\<open>inf\<close> or \<^verbatim>\<open>nan\<close>): \<open>None\<close>.
\<close>

definition py_round :: "numpy \<Rightarrow> np_number \<Rightarrow> nat \<Rightarrow> np_number" where
  "py_round np x ndigits = (case x of Binary m e \<Rightarrow> np_round np x ndigits | _ \<Rightarrow> x)"

definition divide :: "numpy \<Rightarrow> np_number \<Rightarrow> np_number \<Rightarrow> np_number option" where
  "divide np a b = (if is_zero b then None else Some (np_true_divide np a b))"

text \<open>
  \<^verbatim>\<open>
  total_likes = df['Likes'].sum()
  total_comments = df['Comments'].sum()
  total_shares = df['Shares'].sum()
  total_clicks = df['Clicks'].sum()
  total_impressions = df['Impressions'].sum()

  engagement_rate = round(((total_likes + total_comments + total_shares) / total_impressions) * 100, 2) if total_impressions > 0 else 0
  ctr = round((total_clicks / total_impressions) * 100, 2) if total_impressions > 0 else 0
  avg_engagement = round(df['Total Engagement'].mean(), 2)
  \<close>
\<close>

definition total_likes :: "numpy \<Rightarrow> scored_row list \<Rightarrow> np_number" where
  "total_likes np df = series_sum np (map Likes df)"

definition total_comments :: "numpy \<Rightarrow> scored_row list \<Rightarrow> np_number" where
  "total_comments np df = series_sum np (map Comments df)"

definition total_shares :: "numpy \<Rightarrow> scored_row list \<Rightarrow> np_number" where
  "total_shares np df = series_sum np (map Shares df)"

definition total_clicks :: "numpy \<Rightarrow> scored_row list \<Rightarrow> np_number" where
  "total_clicks np df = series_sum np (map Clicks df)"

definition total_impressions :: "numpy \<Rightarrow> scored_row list \<Rightarrow> np_number" where
  "total_impressions np df = series_sum np (map Impressions df)"

definition engagement_rate :: "numpy \<Rightarrow> scored_row list \<Rightarrow> np_number option" where
  "engagement_rate np df =
     (if positive (total_impressions np df)
      then map_option (\<lambda>q. py_round np (np_multiply np q (Binary 100 0)) 2)
             (divide np (np_add np (np_add np (total_likes np df) (total_comments np df)) (total_shares np df))
                (total_impressions np df))
      else Some (Binary 0 0))"

definition ctr :: "numpy \<Rightarrow> scored_row list \<Rightarrow> np_number option" where
  "ctr np df =
     (if positive (total_impressions np df)
      then map_option (\<lambda>q. py_round np (np_multiply np q (Binary 100 0)) 2)
             (divide np (total_clicks np df) (total_impressions np df))
      else Some (Binary 0 0))"

definition avg_engagement :: "numpy \<Rightarrow> scored_row list \<Rightarrow> np_number" where
  "avg_engagement np df = py_round np (series_mean np (map Total_Engagement df)) 2"

text \<open>
  \<^verbatim>\<open>
  top_post = df.loc[df['Likes'].idxmax()]
  top_engaging_post = df.loc[df['Total Engagement'].idxmax()]
  \<close>
  \<^verbatim>\<open>idxmax\<close> raises \<^verbatim>\<open>ValueError\<close> on a column without entries. Otherwise it skips
  \<^verbatim>\<open>NaN\<close> and gives the label of the first row holding the largest value; when every
  entry is \<^verbatim>\<open>NaN\<close> it gives \<^verbatim>\<open>NaN\<close> for a label (pandas 2), which \<^verbatim>\<open>df.loc\<close> does not
  find: \<^verbatim>\<open>KeyError\<close>. The labels of the rows are distinct, so a row's position stands
  for its label.

  Lines 61-69 raise nothing, so the first statement of the metrics that can end the script
  is line 71.
\<close>

definition idxmax :: "rat option list \<Rightarrow> py_error + nat option" where
  "idxmax col =
     (if col = [] then Inl ValueError
      else (case dropna col of
              [] \<Rightarrow> Inr None
            | v # vs \<Rightarrow> Inr (Some (length (takeWhile (\<lambda>x. x \<noteq> Some (fold max vs v)) col)))))"

definition loc :: "'r list \<Rightarrow> nat option \<Rightarrow> py_error + 'r" where
  "loc df label =
     (case label of
        None \<Rightarrow> Inl KeyError
      | Some i \<Rightarrow> if i < length df then Inr (df ! i) else Inl KeyError)"

record summary =
  sum_likes :: np_number
  sum_comments :: np_number
  sum_shares :: np_number
  sum_clicks :: np_number
  sum_impressions :: np_number
  rate :: "np_number option"
  click_rate :: "np_number option"
  mean_engagement :: np_number
  top_post :: scored_row
  top_engaging_post :: scored_row

definition aggregate :: "numpy \<Rightarrow> scored_row list \<Rightarrow> py_error + summary" where
  "aggregate np df =
     (case idxmax (map Likes df) of Inl e \<Rightarrow> Inl e | Inr i \<Rightarrow>
     (case loc df i of Inl e \<Rightarrow> Inl e | Inr p \<Rightarrow>
     (case idxmax (map Total_Engagement df) of Inl e \<Rightarrow> Inl e | Inr j \<Rightarrow>
     (case loc df j of Inl e \<Rightarrow> Inl e | Inr q \<Rightarrow>
        Inr \<lparr>sum_likes = total_likes np df, sum_comments = total_comments np df,
             sum_shares = total_shares np df, sum_clicks = total_clicks np df,
             sum_impressions = total_impressions np df, rate = engagement_rate np df,
             click_rate = ctr np df, mean_engagement = avg_engagement np df,
             top_post = p, top_engaging_post = q\<rparr>))))"

section \<open>The script from upload to table (lines 23-93)\<close>

text \<open>
  The derived columns of lines 74, 86 and 93 are added to every row that is left.
\<close>

record derived_row = scored_row +
  Short_Post :: string
  Post_Type :: string
  Hashtags :: "string list"

definition derive_row :: "scored_row \<Rightarrow> derived_row" where
  "derive_row r =
     \<lparr>Date = Date r, Post = Post r, Likes = Likes r, Comments = Comments r, Shares = Shares r,
      Clicks = Clicks r, Impressions = Impressions r, Total_Engagement = Total_Engagement r,
      Short_Post = short_post (Post r), Post_Type = classify_post_type (Post r),
      Hashtags = hashtags (Post r)\<rparr>"

text \<open>
  What one run hands to the display: the two names, the warnings, the metrics and the
  table. The run is the statements of the script in their order; an exception ends it.
  The selection \<^verbatim>\<open>date_range\<close> and the \<^verbatim>\<open>keyword\<close> come from the widgets.
\<close>

record dashboard =
  shown_platform :: string
  shown_person :: string
  warnings :: "string list"
  metrics :: summary
  post_table :: "derived_row list"

definition run ::
  "(string \<Rightarrow> rat option) \<Rightarrow> (string \<Rightarrow> int option) \<Rightarrow> (string \<Rightarrow> py_error + (string \<Rightarrow> bool))
     \<Rightarrow> numpy \<Rightarrow> upload \<Rightarrow> date_input \<Rightarrow> string \<Rightarrow> py_error + dashboard" where
  "run parse_number parse_date other np u date_range keyword =
     (case coerce_impressions_date parse_number parse_date (table u) of
        Inl e \<Rightarrow> Inl e
      | Inr df \<Rightarrow>
     (case platform u of Inl e \<Rightarrow> Inl e | Inr pl \<Rightarrow>
     (case person u of Inl e \<Rightarrow> Inl e | Inr pe \<Rightarrow>
     (case select_date_range date_range df of (df, shown) \<Rightarrow>
     (case keyword_filter other keyword df of Inl e \<Rightarrow> Inl e | Inr df \<Rightarrow>
     (case coerce_metrics parse_number df of Inl e \<Rightarrow> Inl e | Inr df \<Rightarrow>
     (case aggregate np df of Inl e \<Rightarrow> Inl e | Inr s \<Rightarrow>
        Inr \<lparr>shown_platform = pl, shown_person = pe, warnings = shown, metrics = s,
             post_table = map derive_row df\<rparr>)))))))"

section \<open>What the description promises, in the terms of the table\<close>

text \<open>
  The value a cell is meant to have after coercion: a value of the column's kind stays, a
  text that reads as such a value becomes that value, and every other text and the empty
  cell become null.
\<close>

definition coerced :: "(string \<Rightarrow> 'a option) \<Rightarrow> 'a cell \<Rightarrow> 'a option" where
  "coerced parse c = (case c of Val x \<Rightarrow> Some x | Str s \<Rightarrow> parse s | Null \<Rightarrow> None)"


text \<open>
  The places of a text where a hashtag starts, in ascending order: a \<^verbatim>\<open>#\<close> with a word
  character behind it. The hashtag at such a place is the \<^verbatim>\<open>#\<close> and the whole run of
  word characters that follows.
\<close>

definition hashtag_starts :: "string \<Rightarrow> nat list" where
  "hashtag_starts s =
     filter (\<lambda>i. s ! i = CHR ''#'' \<and> Suc i < length s \<and> is_word_char (s ! Suc i)) [0..<length s]"

definition token_at :: "string \<Rightarrow> nat \<Rightarrow> string" where
  "token_at s i = CHR ''#'' # takeWhile is_word_char (drop (Suc i) s)"

section \<open>Sample rows\<close>

definition text_row :: "string option \<Rightarrow> scored_row" where
  "text_row p =
     \<lparr>Date = None, Post = p, Likes = None, Comments = None, Shares = None, Clicks = None,
      Impressions = None, Total_Engagement = None\<rparr>"

definition sample_row :: "int option \<Rightarrow> string option \<Rightarrow> rat option \<Rightarrow> rat option \<Rightarrow> scored_row" where
  "sample_row date post likes impressions =
     \<lparr>Date = date, Post = post, Likes = likes, Comments = Some 0, Shares = Some 0, Clicks = Some 0,
      Impressions = impressions, Total_Engagement = nan_add (nan_add likes (Some 0)) (Some 0)\<rparr>"

definition metrics_row :: "string \<Rightarrow> rat \<Rightarrow> rat \<Rightarrow> rat \<Rightarrow> rat \<Rightarrow> rat \<Rightarrow> scored_row" where
  "metrics_row post likes comments shares impressions clicks =
     \<lparr>Date = None, Post = Some post, Likes = Some likes, Comments = Some comments,
      Shares = Some shares, Clicks = Some clicks, Impressions = Some impressions,
      Total_Engagement = nan_add (nan_add (Some likes) (Some comments)) (Some shares)\<rparr>"

definition scenario_table :: "scored_row list" where
  "scenario_table =
     [metrics_row ''Great tutorial on X'' 10 2 1 100 5, metrics_row ''Check our sale!'' 50 0 0 200 20]"

definition raw_post :: "int \<Rightarrow> string \<Rightarrow> rat \<Rightarrow> rat \<Rightarrow> raw_row" where
  "raw_post day post likes impressions =
     \<lparr>Date = Val (timestamp_of_date day), Post = Some post, Likes = Val likes, Comments = Val 0,
      Shares = Val 0, Clicks = Val 0, Impressions = Val impressions\<rparr>"

definition sheet :: "string option list option \<Rightarrow> string option list option \<Rightarrow> upload" where
  "sheet platform_column person_column =
     \<lparr>Platform = platform_column, Person = person_column, table = []\<rparr>"

section \<open>Properties: coercion\<close>

lemma convert_cell_coerce: "convert_cell parse Coerce c = Inr (coerced parse c)"
  by (cases c) (auto simp: coerced_def split: option.splits)

lemma convert_cell_raise: "parse s = None \<Longrightarrow> convert_cell parse Raise (Str s) = Inl ValueError"
  by simp

lemma convert_column_coerce: "convert_column parse Coerce col = Inr (map (coerced parse) col)"
  by (induction col) (simp_all add: convert_cell_coerce)

lemma zip_two_columns:
  "map f (zip xs (zip (map g xs) (map h xs))) = map (\<lambda>x. f (x, g x, h x)) xs"
  by (induction xs) auto

lemma zip_four_columns:
  "map f (zip xs (zip (map g xs) (zip (map h xs) (zip (map k xs) (map l xs)))))
     = map (\<lambda>x. f (x, g x, h x, k x, l x)) xs"
  by (induction xs) auto

text \<open>
  C5: the two coercion steps return a table for every input table and every way pandas may
  read texts; they never raise. Afterwards each cell of \<^verbatim>\<open>Impressions\<close>, \<^verbatim>\<open>Likes\<close>,
  \<^verbatim>\<open>Comments\<close>, \<^verbatim>\<open>Shares\<close> and \<^verbatim>\<open>Clicks\<close> is a number or null and each cell of
  \<^verbatim>\<open>Date\<close> is a timestamp or null, where a text that does not read as a value of the
  column's kind and an empty cell have become null. (A table here has all the columns the
  script indexes.)
\<close>

theorem coercion_never_raises:
  "coerce_impressions_date parse_number parse_date df =
     Inr (map (\<lambda>r. \<lparr>Date = coerced parse_date (Date r), Post = Post r, Likes = Likes r,
                     Comments = Comments r, Shares = Shares r, Clicks = Clicks r,
                     Impressions = coerced parse_number (Impressions r)\<rparr>) df)
   \<and> coerce_metrics parse_number df' =
     Inr (map (\<lambda>r. \<lparr>Date = Date r, Post = Post r, Likes = coerced parse_number (Likes r),
                     Comments = coerced parse_number (Comments r),
                     Shares = coerced parse_number (Shares r),
                     Clicks = coerced parse_number (Clicks r), Impressions = Impressions r,
                     Total_Engagement =
                       nan_add (nan_add (coerced parse_number (Likes r)) (coerced parse_number (Comments r)))
                         (coerced parse_number (Shares r))\<rparr>) df')
   \<and> coerced parse (Val x) = Some x \<and> coerced parse (Str s) = parse s \<and> coerced parse Null = None"
proof -
  have a: "coerce_impressions_date parse_number parse_date df =
     Inr (map (\<lambda>r. \<lparr>Date = coerced parse_date (Date r), Post = Post r, Likes = Likes r,
                     Comments = Comments r, Shares = Shares r, Clicks = Clicks r,
                     Impressions = coerced parse_number (Impressions r)\<rparr>) df)"
    by (simp add: coerce_impressions_date_def to_numeric_def to_datetime_def
        convert_column_coerce zip_two_columns o_def)
  have b: "coerce_metrics parse_number df' =
     Inr (map (\<lambda>r. \<lparr>Date = Date r, Post = Post r, Likes = coerced parse_number (Likes r),
                     Comments = coerced parse_number (Comments r),
                     Shares = coerced parse_number (Shares r),
                     Clicks = coerced parse_number (Clicks r), Impressions = Impressions r,
                     Total_Engagement =
                       nan_add (nan_add (coerced parse_number (Likes r)) (coerced parse_number (Comments r)))
                         (coerced parse_number (Shares r))\<rparr>) df')"
    by (simp add: coerce_metrics_def to_numeric_def convert_column_coerce zip_four_columns o_def)
  have c: "coerced parse (Val x) = Some x \<and> coerced parse (Str s) = parse s \<and> coerced parse Null = None"
    by (simp add: coerced_def)
  from a b c show ?thesis by blast
qed

section \<open>Properties: platform and person\<close>

lemma dropna_Nil_iff: "dropna col = [] \<longleftrightarrow> (\<forall>x\<in>set col. x = None)"
  unfolding dropna_def by (induction col) (auto split: option.splits)

lemma iloc0_all_null: "\<forall>x\<in>set col. x = None \<Longrightarrow> iloc0 (dropna col) = Inl IndexError"
  using dropna_Nil_iff[of col] by (simp add: iloc0_def)

lemma iloc0_first_valid:
  "\<exists>x\<in>set col. x \<noteq> None \<Longrightarrow>
     \<exists>v pre post. iloc0 (dropna col) = Inr v \<and> col = pre @ Some v # post \<and> (\<forall>x\<in>set pre. x = None)"
proof (induction col)
  case Nil
  then show ?case by simp
next
  case (Cons a col)
  show ?case
  proof (cases a)
    case None
    with Cons.prems have "\<exists>x\<in>set col. x \<noteq> None" by auto
    from Cons.IH[OF this] obtain v pre post where
      v: "iloc0 (dropna col) = Inr v" "col = pre @ Some v # post" "\<forall>x\<in>set pre. x = None"
      by blast
    have "a # col = (None # pre) @ Some v # post" using v None by simp
    moreover have "\<forall>x\<in>set (None # pre). x = None" using v by simp
    moreover have "iloc0 (dropna (a # col)) = Inr v" using v None by (simp add: dropna_def)
    ultimately show ?thesis by blast
  next
    case (Some v)
    have "a # col = [] @ Some v # col \<and> (\<forall>x\<in>set []. x = (None :: 'a option))"
      using Some by simp
    moreover have "iloc0 (dropna (a # col)) = Inr v"
      using Some by (simp add: dropna_def iloc0_def)
    ultimately show ?thesis by blast
  qed
qed

text \<open>
  C9: the defaults \<^verbatim>\<open>Unknown\<close> and \<^verbatim>\<open>N/A\<close> are what the script takes exactly when the
  sheet has no \<^verbatim>\<open>Platform\<close> or \<^verbatim>\<open>Person\<close> column. When the column is there and every
  cell of it is empty, taking its first filled cell raises \<^verbatim>\<open>IndexError\<close>; when it holds
  a filled cell, the first one is the value and nothing is raised.
\<close>

theorem platform_person_defaults:
  "(Platform u = None \<longrightarrow> platform u = Inr ''Unknown'')
   \<and> (Person u = None \<longrightarrow> person u = Inr ''N/A'')
   \<and> (\<forall>col. Platform u = Some col \<and> set col \<subseteq> {None} \<longrightarrow> platform u = Inl IndexError)
   \<and> (\<forall>col. Person u = Some col \<and> set col \<subseteq> {None} \<longrightarrow> person u = Inl IndexError)
   \<and> (\<forall>col. Platform u = Some col \<and> (\<exists>x\<in>set col. x \<noteq> None) \<longrightarrow>
         (\<exists>v pre post. platform u = Inr v \<and> col = pre @ Some v # post \<and> (\<forall>x\<in>set pre. x = None)))
   \<and> (\<forall>col. Person u = Some col \<and> (\<exists>x\<in>set col. x \<noteq> None) \<longrightarrow>
         (\<exists>v pre post. person u = Inr v \<and> col = pre @ Some v # post \<and> (\<forall>x\<in>set pre. x = None)))"
proof -
  have a: "Platform u = None \<longrightarrow> platform u = Inr ''Unknown''"
    by (simp add: platform_def)
  have b: "Person u = None \<longrightarrow> person u = Inr ''N/A''"
    by (simp add: person_def)
  have c: "\<forall>col. Platform u = Some col \<and> set col \<subseteq> {None} \<longrightarrow> platform u = Inl IndexError"
    by (auto simp: platform_def intro!: iloc0_all_null)
  have d: "\<forall>col. Person u = Some col \<and> set col \<subseteq> {None} \<longrightarrow> person u = Inl IndexError"
    by (auto simp: person_def intro!: iloc0_all_null)
  have e: "\<forall>col. Platform u = Some col \<and> (\<exists>x\<in>set col. x \<noteq> None) \<longrightarrow>
         (\<exists>v pre post. platform u = Inr v \<and> col = pre @ Some v # post \<and> (\<forall>x\<in>set pre. x = None))"
  proof (intro allI impI)
    fix col
    assume h: "Platform u = Some col \<and> (\<exists>x\<in>set col. x \<noteq> None)"
    then have "\<exists>v pre post. iloc0 (dropna col) = Inr v \<and> col = pre @ Some v # post \<and> (\<forall>x\<in>set pre. x = None)"
      using iloc0_first_valid [of col] by blast
    moreover have "platform u = iloc0 (dropna col)"
      using h by (simp add: platform_def)
    ultimately show "\<exists>v pre post. platform u = Inr v \<and> col = pre @ Some v # post \<and> (\<forall>x\<in>set pre. x = None)"
      by simp
  qed
  have f: "\<forall>col. Person u = Some col \<and> (\<exists>x\<in>set col. x \<noteq> None) \<longrightarrow>
         (\<exists>v pre post. person u = Inr v \<and> col = pre @ Some v # post \<and> (\<forall>x\<in>set pre. x = None))"
  proof (intro allI impI)
    fix col
    assume h: "Person u = Some col \<and> (\<exists>x\<in>set col. x \<noteq> None)"
    then have "\<exists>v pre post. iloc0 (dropna col) = Inr v \<and> col = pre @ Some v # post \<and> (\<forall>x\<in>set pre. x = None)"
      using iloc0_first_valid [of col] by blast
    moreover have "person u = iloc0 (dropna col)"
      using h by (simp add: person_def)
    ultimately show "\<exists>v pre post. person u = Inr v \<and> col = pre @ Some v # post \<and> (\<forall>x\<in>set pre. x = None)"
      by simp
  qed
  from a b c d e f show ?thesis by blast
qed

theorem platform_person_defaults_witness:
  "(Platform (sheet None None) = None \<and> platform (sheet None None) = Inr ''Unknown'')
   \<and> (Person (sheet None None) = None \<and> person (sheet None None) = Inr ''N/A'')
   \<and> (Platform (sheet (Some [None, None]) (Some [None])) = Some [None, None]
        \<and> set [None, None :: string option] \<subseteq> {None}
        \<and> platform (sheet (Some [None, None]) (Some [None])) = Inl IndexError)
   \<and> (Person (sheet (Some [None, None]) (Some [None])) = Some [None]
        \<and> set [None :: string option] \<subseteq> {None}
        \<and> person (sheet (Some [None, None]) (Some [None])) = Inl IndexError)
   \<and> (Platform (sheet (Some [None, Some ''LinkedIn'']) (Some [Some ''Asha''])) = Some [None, Some ''LinkedIn'']
        \<and> (\<exists>x\<in>set [None, Some ''LinkedIn'']. x \<noteq> None)
        \<and> platform (sheet (Some [None, Some ''LinkedIn'']) (Some [Some ''Asha''])) = Inr ''LinkedIn'')
   \<and> (Person (sheet (Some [None, Some ''LinkedIn'']) (Some [Some ''Asha''])) = Some [Some ''Asha'']
        \<and> (\<exists>x\<in>set [Some ''Asha'']. x \<noteq> None)
        \<and> person (sheet (Some [None, Some ''LinkedIn'']) (Some [Some ''Asha''])) = Inr ''Asha'')"
proof -
  have absent: "Platform (sheet None None) = None" "Person (sheet None None) = None"
    by (simp_all add: sheet_def)
  have null: "Platform (sheet (Some [None, None]) (Some [None])) = Some [None, None]"
    "Person (sheet (Some [None, None]) (Some [None])) = Some [None]"
    by (simp_all add: sheet_def)
  have filled: "platform (sheet (Some [None, Some ''LinkedIn'']) (Some [Some ''Asha''])) = Inr ''LinkedIn''"
    "person (sheet (Some [None, Some ''LinkedIn'']) (Some [Some ''Asha''])) = Inr ''Asha''"
    by (simp_all add: sheet_def platform_def person_def dropna_def iloc0_def)
  show ?thesis
    using platform_person_defaults [of "sheet None None"]
      platform_person_defaults [of "sheet (Some [None, None]) (Some [None])"]
      platform_person_defaults [of "sheet (Some [None, Some ''LinkedIn'']) (Some [Some ''Asha''])"]
      absent null filled
    by (simp add: sheet_def)
qed

section \<open>Properties: date range\<close>

lemma timestamp_of_date_mono: "a < b \<Longrightarrow> timestamp_of_date a < timestamp_of_date b"
  by (simp add: timestamp_of_date_def)

lemma date_filter_reversed: "end_date < start_date \<Longrightarrow> date_filter start_date end_date df = []"
proof -
  assume "end_date < start_date"
  then have "timestamp_of_date end_date < timestamp_of_date start_date"
    by (rule timestamp_of_date_mono)
  then have "\<And>d. \<not> date_in_range start_date end_date d"
    by (auto simp: date_in_range_def split: option.splits)
  then show ?thesis by (simp add: date_filter_def)
qed

lemma date_filter_within:
  "r \<in> set (date_filter start_date end_date df) \<Longrightarrow>
     r \<in> set df \<and> (\<exists>t. Date r = Some t \<and> timestamp_of_date start_date \<le> t \<and> t \<le> timestamp_of_date end_date)"
  by (auto simp: date_filter_def date_in_range_def split: option.splits)

text \<open>
  C2 as stated fails for a pair with the start behind the end: the pair has two entries, so
  line 45 filters with it, no record lies in the range, and no warning is shown. The rest
  of the script gets the empty table, not the unfiltered one.
\<close>

theorem select_date_range_reversed_counterexample:
  "select_date_range (Tuple [5, 1]) [sample_row (Some (timestamp_of_date 3)) None None None] = ([], [])
   \<and> select_date_range (Tuple [5, 1]) [sample_row (Some (timestamp_of_date 3)) None None None] \<noteq>
       ([sample_row (Some (timestamp_of_date 3)) None None None],
        [''Please select a valid start and end date.''])"
  by code_simp

text \<open>
  C2, amended: for every selection that is not a pair of dates (a single date, no date, one
  date of a range, or more than two) the script shows the warning, raises nothing, and
  hands the full unfiltered table on.
\<close>

theorem select_date_range_not_a_pair:
  "(\<forall>a b. date_range \<noteq> Tuple [a, b]) \<Longrightarrow>
     select_date_range date_range df = (df, [''Please select a valid start and end date.''])"
  by (auto simp: select_date_range_def split: date_input.splits list.splits)

theorem select_date_range_not_a_pair_witness:
  "(\<forall>a b. Tuple [7] \<noteq> Tuple [a, b])
   \<and> select_date_range (Tuple [7]) [sample_row (Some (timestamp_of_date 3)) None None None]
       = ([sample_row (Some (timestamp_of_date 3)) None None None],
          [''Please select a valid start and end date.''])"
proof -
  have h: "\<forall>a b. Tuple [7] \<noteq> Tuple [a, b]" by simp
  from select_date_range_not_a_pair [OF h] h show ?thesis by simp
qed

section \<open>Properties: keyword\<close>

lemma re_compile_plain: "\<forall>c\<in>set kw. c \<notin> re_special \<Longrightarrow> re_compile kw = Some (map Literal kw)"
proof (induction kw rule: re_compile.induct)
  case 1
  show ?case by simp
next
  case (2 c)
  then have "c \<notin> re_special" by simp
  moreover have "CHR ''.'' \<in> re_special" by (simp add: re_special_def)
  ultimately show ?case by auto
next
  case (3 c d ds)
  have sp: "CHR ''.'' \<in> re_special" "CHR 0x5C \<in> re_special"
    by (simp_all add: re_special_def)
  from 3 have c: "c \<notin> re_special" and rest: "\<forall>x\<in>set (d # ds). x \<notin> re_special"
    by simp_all
  from c sp have ne: "c \<noteq> CHR ''.''" "c \<noteq> CHR 0x5C" by auto
  from "3.IH"(3)[OF ne(2) ne(1) c rest] ne c show ?case by simp
qed

lemma re_match_literal: "re_match (map Literal kw) s = prefix (lower kw) (lower s)"
  by (induction kw s rule: list_induct2') (simp_all add: lower_def)

lemma re_search_literal: "re_search (map Literal kw) s = sublist (lower kw) (lower s)"
proof (induction s)
  case Nil
  show ?case by (cases kw) (simp_all add: lower_def)
next
  case (Cons d ds)
  then show ?case
    using re_match_literal[of kw "d # ds"]
    by (simp add: sublist_Cons_right lower_def)
qed

lemma keyword_filter_literal:
  assumes "keyword \<noteq> []" "\<forall>c\<in>set keyword. c \<notin> re_special"
  shows "keyword_filter other keyword df = Inr (filter (\<lambda>r. contains_ci keyword (py_str (Post r))) df)"
  using assms by (simp add: keyword_filter_def re_compile_plain re_search_literal contains_ci_def)

text \<open>
  C3 as stated fails twice. The keyword is read as a regular expression, so the keyword
  \<^verbatim>\<open>.\<close> keeps a post \<^verbatim>\<open>abc\<close> that holds no dot. And the empty cell is turned into the
  text \<^verbatim>\<open>nan\<close> before the search, so the keyword \<^verbatim>\<open>nan\<close> keeps a record whose post text
  is null.
\<close>

theorem keyword_filter_counterexample:
  "\<forall>other. keyword_filter other ''.'' [text_row (Some ''abc'')] = Inr [text_row (Some ''abc'')]
     \<and> \<not> contains_ci ''.'' ''abc''
     \<and> keyword_filter other ''nan'' [text_row None] = Inr [text_row None]"
proof -
  have "re_compile ''.'' = Some [AnyChar]" "re_compile ''nan'' = Some (map Literal ''nan'')"
    by (simp_all add: re_special_def)
  moreover have "re_search [AnyChar] ''abc''" "re_search (map Literal ''nan'') ''nan''"
    "\<not> contains_ci ''.'' ''abc''"
    by code_simp+
  ultimately show ?thesis
    by (simp add: keyword_filter_def text_row_def py_str_def)
qed

text \<open>
  C3, amended: for every table and every non-empty keyword without a character that is
  special in a regular expression, of the records that have a post text the filter keeps
  exactly those whose text contains the keyword as a literal substring, whatever the case
  of the letters, in their order; with the empty keyword the filter hands the table on
  unchanged.
\<close>

theorem keyword_filter_plain_keyword:
  "(keyword \<noteq> [] \<and> set keyword \<inter> re_special = {} \<longrightarrow>
      (\<exists>kept. keyword_filter other keyword df = Inr kept \<and>
         filter (\<lambda>r. Post r \<noteq> None) kept =
           filter (\<lambda>r. \<exists>t. Post r = Some t \<and> contains_ci keyword t) df))
   \<and> keyword_filter other [] df = Inr df"
proof -
  have "filter (\<lambda>r. Post r \<noteq> None) (filter (\<lambda>r. contains_ci keyword (py_str (Post r))) df)
      = filter (\<lambda>r. \<exists>t. Post r = Some t \<and> contains_ci keyword t) df"
    by (auto simp: py_str_def intro!: filter_cong)
  moreover have "keyword_filter other [] df = Inr df"
    by (simp add: keyword_filter_def)
  moreover have "set keyword \<inter> re_special = {} \<longleftrightarrow> (\<forall>c\<in>set keyword. c \<notin> re_special)"
    by blast
  ultimately show ?thesis
    by (simp add: keyword_filter_literal)
qed

theorem keyword_filter_plain_keyword_witness:
  "\<forall>other. ''tip'' \<noteq> [] \<and> set ''tip'' \<inter> re_special = {}
     \<and> (\<exists>kept. keyword_filter other ''tip''
                  [text_row (Some ''Top TIPS''), text_row (Some ''hello''), text_row None] = Inr kept
          \<and> filter (\<lambda>r. Post r \<noteq> None) kept = [text_row (Some ''Top TIPS'')])"
proof
  fix other
  have h: "''tip'' \<noteq> [] \<and> set ''tip'' \<inter> re_special = {}"
    by (simp add: re_special_def)
  have e: "contains_ci ''tip'' ''Top TIPS''" "\<not> contains_ci ''tip'' ''hello''"
    by code_simp+
  have "filter (\<lambda>r. \<exists>t. Post r = Some t \<and> contains_ci ''tip'' t)
          [text_row (Some ''Top TIPS''), text_row (Some ''hello''), text_row None]
        = [text_row (Some ''Top TIPS'')]"
    using e by (simp add: text_row_def)
  with keyword_filter_plain_keyword
         [of "''tip''" other "[text_row (Some ''Top TIPS''), text_row (Some ''hello''), text_row None]"] h
  show "''tip'' \<noteq> [] \<and> set ''tip'' \<inter> re_special = {}
     \<and> (\<exists>kept. keyword_filter other ''tip''
                  [text_row (Some ''Top TIPS''), text_row (Some ''hello''), text_row None] = Inr kept
          \<and> filter (\<lambda>r. Post r \<noteq> None) kept = [text_row (Some ''Top TIPS'')])"
    by simp
qed

section \<open>Properties: the two filters together\<close>

text \<open>
  C8: filtering by a date range and filtering by a keyword give the same outcome in either
  order, and filtering a second time with the same range or the same keyword changes
  nothing; this for every range and every keyword, a regular expression or not. (A
  keyword that Python rejects as a pattern ends the script, in either order, before a row
  is looked at.) The same holds for the date step as the script runs it, with whatever
  the date widget handed back.
\<close>

theorem filters_commute_and_idempotent:
  "date_filter a b (date_filter a b df) = date_filter a b df
   \<and> (case keyword_filter other kw df of Inl e \<Rightarrow> Inl e | Inr kept \<Rightarrow> keyword_filter other kw kept)
        = keyword_filter other kw df
   \<and> map_sum id (date_filter a b) (keyword_filter other kw df)
        = keyword_filter other kw (date_filter a b df)
   \<and> map_sum id (\<lambda>d. fst (select_date_range sel d)) (keyword_filter other kw df)
        = keyword_filter other kw (fst (select_date_range sel df))
   \<and> fst (select_date_range sel (fst (select_date_range sel df))) = fst (select_date_range sel df)"
proof -
  have a: "date_filter a b (date_filter a b df) = date_filter a b df" for a b
    by (simp add: date_filter_def)
  have b: "(case keyword_filter other kw df of Inl e \<Rightarrow> Inl e | Inr kept \<Rightarrow> keyword_filter other kw kept)
        = keyword_filter other kw df"
    by (simp add: keyword_filter_def split: option.splits sum.splits)
  have c: "map_sum id (date_filter a b) (keyword_filter other kw df)
        = keyword_filter other kw (date_filter a b df)" for a b
    by (auto simp: date_filter_def keyword_filter_def split: option.splits sum.splits intro: filter_cong)
  have d: "map_sum id (\<lambda>d. fst (select_date_range sel d)) (keyword_filter other kw df)
        = keyword_filter other kw (fst (select_date_range sel df))"
  proof (cases "\<exists>x y. sel = Tuple [x, y]")
    case True
    then obtain x y where "sel = Tuple [x, y]" by blast
    then show ?thesis using c [of x y] by (simp add: select_date_range_def)
  next
    case False
    then have "fst (select_date_range sel t) = t" for t :: "(int option, 'a, 'b, 'c) post_row_scheme list"
      by (auto simp: select_date_range_def split: date_input.splits list.splits)
    then show ?thesis by (cases "keyword_filter other kw df") simp_all
  qed
  have e: "fst (select_date_range sel (fst (select_date_range sel df))) = fst (select_date_range sel df)"
    using a by (simp add: select_date_range_def split: date_input.splits list.splits)
  from a b c d e show ?thesis by blast
qed

lemma filters_example:
  "map_sum id (date_filter 1 5)
     (keyword_filter other ''tip''
        [sample_row (Some (timestamp_of_date 3)) (Some ''Tips'') None None,
         sample_row (Some (timestamp_of_date 9)) (Some ''tips'') None None,
         sample_row (Some (timestamp_of_date 2)) (Some ''other'') None None])
   = Inr [sample_row (Some (timestamp_of_date 3)) (Some ''Tips'') None None]"
proof -
  have "re_compile ''tip'' = Some (map Literal ''tip'')"
    by (simp add: re_special_def)
  moreover have "re_search (map Literal ''tip'') ''Tips''" "re_search (map Literal ''tip'') ''tips''"
    "\<not> re_search (map Literal ''tip'') ''other''"
    by code_simp+
  moreover have "date_in_range 1 5 (Some (timestamp_of_date 3))"
    "\<not> date_in_range 1 5 (Some (timestamp_of_date 9))"
    by code_simp+
  ultimately show ?thesis
    by (simp add: keyword_filter_def date_filter_def sample_row_def py_str_def)
qed

lemma filters_operator_keyword_example:
  "other ''tips|course'' = Inr found \<Longrightarrow>
     keyword_filter other ''tips|course'' df = Inr (filter (\<lambda>r. found (py_str (Post r))) df)"
  by (simp add: keyword_filter_def re_special_def)

lemma filters_rejected_keyword_example:
  "other ''(AI'' = Inl e \<Longrightarrow> keyword_filter other ''(AI'' df = Inl e"
  by (simp add: keyword_filter_def re_special_def)

section \<open>Properties: rates\<close>








lemma scenario_metrics:
  "map Total_Engagement scenario_table = [Some 13, Some 50]
   \<and> total_likes np scenario_table = Binary 60 0
   \<and> total_comments np scenario_table = Binary 2 0
   \<and> total_shares np scenario_table = Binary 1 0
   \<and> total_clicks np scenario_table = Binary 25 0
   \<and> total_impressions np scenario_table = Binary 300 0
   \<and> map_sum id top_engaging_post (aggregate np scenario_table) = Inr (scenario_table ! 1)
   \<and> map (classify_post_type \<circ> Post) scenario_table = [''Educational'', ''Other'']"
proof -
  have a: "map Total_Engagement scenario_table = [Some 13, Some 50]"
    "map (classify_post_type \<circ> Post) scenario_table = [''Educational'', ''Other'']"
    by code_simp+
  have b: "total_likes np scenario_table = Binary 60 0" "total_comments np scenario_table = Binary 2 0"
    "total_shares np scenario_table = Binary 1 0" "total_clicks np scenario_table = Binary 25 0"
    "total_impressions np scenario_table = Binary 300 0"
    by (simp_all add: total_likes_def total_comments_def total_shares_def total_clicks_def
        total_impressions_def series_sum_def dropna_def scenario_table_def metrics_row_def
        added_exactly_def is_whole_def)
  have c: "idxmax (map Likes scenario_table) = Inr (Some 1)"
    "idxmax (map Total_Engagement scenario_table) = Inr (Some 1)"
    by code_simp+
  have d: "map_sum id top_engaging_post (aggregate np scenario_table) = Inr (scenario_table ! 1)"
    using c by (simp add: aggregate_def loc_def scenario_table_def)
  from a b d show ?thesis by simp
qed

section \<open>Properties: the empty table\<close>

text \<open>
  C1 as stated fails: on the empty table the aggregation does end in an exception, but in
  the \<^verbatim>\<open>ValueError\<close> that \<^verbatim>\<open>idxmax\<close> raises, which nothing catches; there is no
  \<^verbatim>\<open>EmptyDatasetError\<close>.
\<close>

theorem aggregate_empty_counterexample:
  "\<forall>np. aggregate np [] \<noteq> Inl (Raised ''EmptyDatasetError'')"
  by (simp add: aggregate_def idxmax_def)

text \<open>
  C1, amended: on the empty derived table the aggregation yields no result: the sums and
  both rates are 0, the average is \<^verbatim>\<open>NaN\<close>, and the search for the top-liked record
  raises \<^verbatim>\<open>ValueError\<close>, with which the script ends.
\<close>

theorem aggregate_empty_raises:
  "aggregate np [] = Inl ValueError
   \<and> total_likes np [] = Binary 0 0 \<and> total_comments np [] = Binary 0 0
   \<and> total_shares np [] = Binary 0 0 \<and> total_clicks np [] = Binary 0 0
   \<and> total_impressions np [] = Binary 0 0
   \<and> engagement_rate np [] = Some (Binary 0 0) \<and> ctr np [] = Some (Binary 0 0)
   \<and> avg_engagement np [] = NaN"
  by (simp add: aggregate_def idxmax_def total_likes_def total_comments_def total_shares_def
      total_clicks_def total_impressions_def engagement_rate_def ctr_def avg_engagement_def
      series_sum_def series_mean_def dropna_def positive_def py_round_def)

lemma aggregate_nonempty_not_ValueError: "df \<noteq> [] \<Longrightarrow> aggregate np df \<noteq> Inl ValueError"
  by (simp add: aggregate_def idxmax_def loc_def split: sum.splits option.splits list.splits)

section \<open>Properties: a run that leaves no record\<close>

text \<open>
  When the filters leave no record the run ends in the \<^verbatim>\<open>ValueError\<close> of line 71: the
  exception passes through the script and no table is shown.
\<close>

lemma coerce_metrics_Nil: "coerce_metrics pn [] = Inr []"
  by (simp add: coerce_metrics_def to_numeric_def)

lemma run_nothing_left:
  assumes "coerce_impressions_date pn pd (table u) = Inr df"
    and "platform u = Inr pl" and "person u = Inr pe"
    and "keyword_filter other kw (fst (select_date_range dr df)) = Inr []"
  shows "run pn pd other np u dr kw = Inl ValueError"
proof -
  have "aggregate np [] = Inl ValueError" by (simp add: aggregate_def idxmax_def)
  with assms show ?thesis
    by (cases "select_date_range dr df") (simp add: run_def coerce_metrics_Nil)
qed

lemma run_no_match_example:
  "run (\<lambda>s. None) (\<lambda>s. None) other np
     \<lparr>Platform = None, Person = None, table = [raw_post 3 ''hello'' 4 100]\<rparr>
     (Tuple [1, 5]) ''tutorial'' = Inl ValueError"
proof -
  let ?u = "\<lparr>Platform = None, Person = None, table = [raw_post 3 ''hello'' 4 100]\<rparr>"
  have a: "coerce_impressions_date (\<lambda>s. None) (\<lambda>s. None) (table ?u)
             = Inr [\<lparr>Date = Some (timestamp_of_date 3), Post = Some ''hello'', Likes = Val 4,
                     Comments = Val 0, Shares = Val 0, Clicks = Val 0, Impressions = Some 100\<rparr>]"
    by (simp add: coerce_impressions_date_def to_numeric_def to_datetime_def raw_post_def)
  have b: "platform ?u = Inr ''Unknown''" "person ?u = Inr ''N/A''"
    by (simp_all add: platform_def person_def)
  have c: "re_compile ''tutorial'' = Some (map Literal ''tutorial'')"
    by (simp add: re_special_def)
  have d: "\<not> re_search (map Literal ''tutorial'') ''hello''"
    by code_simp
  have "keyword_filter other ''tutorial''
          (fst (select_date_range (Tuple [1, 5])
             [\<lparr>Date = Some (timestamp_of_date 3), Post = Some ''hello'', Likes = Val (4::rat),
               Comments = Val (0::rat), Shares = Val (0::rat), Clicks = Val (0::rat),
               Impressions = Some (100::rat)\<rparr>])) = Inr []"
    using c d by (simp add: keyword_filter_def select_date_range_def date_filter_def py_str_def)
  from run_nothing_left [OF a b this] show ?thesis .
qed

section \<open>Properties: Short Post\<close>

text \<open>
  C10: every short label ends with the three dots. They are appended also to a text of 25
  characters or fewer, which therefore does not come back as it was, and the empty cell,
  turned into text first, gets the label \<^verbatim>\<open>nan...\<close>.
\<close>

theorem short_post_always_ellipsis:
  "suffix ''...'' (short_post post)
   \<and> short_post (Some t) = take 25 t @ ''...''
   \<and> (length t \<le> 25 \<longrightarrow> short_post (Some t) = t @ ''...'' \<and> short_post (Some t) \<noteq> t)
   \<and> short_post None = ''nan...''"
  by (simp add: short_post_def py_str_def suffix_def)

theorem short_post_always_ellipsis_witness:
  "length ''Hello'' \<le> 25 \<and> short_post (Some ''Hello'') = ''Hello...'' \<and> short_post (Some ''Hello'') \<noteq> ''Hello''"
  using short_post_always_ellipsis [of "Some ''Hello''" "''Hello''"] by simp

section \<open>Properties: Post Type\<close>

lemma educational_keywords_lower: "\<forall>k\<in>set educational_keywords. lower k = k"
  by code_simp

lemma classify_post_type_None: "classify_post_type None = ''Other''"
  by code_simp

lemma contains_ci_iff: "contains_ci k t \<longleftrightarrow> (\<exists>w. sublist w t \<and> lower w = lower k)"
proof
  assume "contains_ci k t"
  then obtain ps ss where "map lower_char t = ps @ (map lower_char k @ ss)"
    unfolding contains_ci_def sublist_def lower_def by blast
  then have "\<exists>us vs. t = us @ vs \<and> ps = map lower_char us \<and> map lower_char k @ ss = map lower_char vs"
    by (simp only: map_eq_append_conv)
  then obtain us vs where t: "t = us @ vs" and "map lower_char vs = map lower_char k @ ss"
    by metis
  then have "\<exists>w zs. vs = w @ zs \<and> map lower_char k = map lower_char w \<and> ss = map lower_char zs"
    by (simp only: map_eq_append_conv)
  then obtain w zs where vs: "vs = w @ zs" and w: "map lower_char w = map lower_char k"
    by metis
  from t vs have "sublist w t" unfolding sublist_def by blast
  with w show "\<exists>w. sublist w t \<and> lower w = lower k" unfolding lower_def by blast
next
  assume "\<exists>w. sublist w t \<and> lower w = lower k"
  then obtain w where "sublist w t" "lower w = lower k" by blast
  then show "contains_ci k t"
    using map_mono_sublist[of w t lower_char] by (simp add: contains_ci_def lower_def)
qed

text \<open>
  C6: the classification is a function of the post text alone, with exactly the two values
  \<^verbatim>\<open>Educational\<close> and \<^verbatim>\<open>Other\<close>. A record is \<^verbatim>\<open>Educational\<close> exactly when its text
  holds one of the seven keywords as a substring, whatever the case of the letters; only
  the set of keywords matters, not their order. A post saying "Free Tutorial" is
  \<^verbatim>\<open>Educational\<close>, one saying "Check out our product" is \<^verbatim>\<open>Other\<close>.
\<close>

theorem classify_post_type_total_and_exact:
  "classify_post_type post \<in> {''Educational'', ''Other''}
   \<and> (classify_post_type post = ''Educational'' \<longleftrightarrow>
        (\<exists>t. post = Some t \<and> (\<exists>k\<in>set educational_keywords. contains_ci k t)))
   \<and> (classify_post_type post = ''Other'' \<longleftrightarrow>
        \<not> (\<exists>t. post = Some t \<and> (\<exists>k\<in>set educational_keywords. contains_ci k t)))
   \<and> classify_post_type (Some ''Free Tutorial'') = ''Educational''
   \<and> classify_post_type (Some ''Check out our product'') = ''Other''"
proof -
  have a: "classify_post_type post \<in> {''Educational'', ''Other''}"
    by (simp add: classify_post_type_def Let_def)
  have b: "classify_post_type post = ''Educational'' \<longleftrightarrow>
             (\<exists>t. post = Some t \<and> (\<exists>k\<in>set educational_keywords. contains_ci k t))"
  proof (cases post)
    case None
    then show ?thesis by (simp add: classify_post_type_None)
  next
    case (Some t)
    have "list_ex (\<lambda>k. sublist k (lower t)) educational_keywords
            \<longleftrightarrow> (\<exists>k\<in>set educational_keywords. contains_ci k t)"
      using educational_keywords_lower by (simp add: list_ex_iff contains_ci_def)
    then show ?thesis using Some by (simp add: classify_post_type_def py_str_def Let_def)
  qed
  have c: "classify_post_type (Some ''Free Tutorial'') = ''Educational''" by code_simp
  have d: "classify_post_type (Some ''Check out our product'') = ''Other''" by code_simp
  from a b c d show ?thesis by auto
qed

theorem classify_post_type_total_and_exact_witness:
  "(\<exists>k\<in>set educational_keywords. contains_ci k ''Top TIPS for you'')
   \<and> classify_post_type (Some ''Top TIPS for you'') = ''Educational''"
proof -
  have "classify_post_type (Some ''Top TIPS for you'') = ''Educational''" by code_simp
  with classify_post_type_total_and_exact [of "Some ''Top TIPS for you''"] show ?thesis by simp
qed

section \<open>Properties: Hashtags\<close>

lemma hash_not_word: "\<not> is_word_char CHR ''#''"
  by (simp add: is_word_char_def)

lemma hashtag_starts_Cons:
  "hashtag_starts (c # cs) =
     (if c = CHR ''#'' \<and> takeWhile is_word_char cs \<noteq> [] then [0] else []) @ map Suc (hashtag_starts cs)"
proof -
  have upt: "[0..<length (c # cs)] = 0 # map Suc [0..<length cs]"
    by (simp add: upt_conv_Cons map_Suc_upt del: upt_Suc)
  have run: "takeWhile is_word_char cs \<noteq> [] \<longleftrightarrow> (0 < length cs \<and> is_word_char (cs ! 0))"
    by (cases cs) auto
  show ?thesis
    unfolding hashtag_starts_def upt by (auto simp: filter_map o_def run)
qed

lemma tokens_Cons:
  "map (token_at (c # cs)) (hashtag_starts (c # cs)) =
     (if c = CHR ''#'' \<and> takeWhile is_word_char cs \<noteq> [] then [c # takeWhile is_word_char cs] else [])
       @ map (token_at cs) (hashtag_starts cs)"
  by (simp add: hashtag_starts_Cons token_at_def o_def)

lemma tokens_skip_word:
  "is_word_char c \<Longrightarrow>
     map (token_at (c # cs)) (hashtag_starts (c # cs)) = map (token_at cs) (hashtag_starts cs)"
  using hash_not_word by (auto simp: tokens_Cons)

lemma tokens_dropWhile:
  "map (token_at (dropWhile is_word_char cs)) (hashtag_starts (dropWhile is_word_char cs))
     = map (token_at cs) (hashtag_starts cs)"
  by (induction cs) (simp_all add: tokens_skip_word)

lemma findall_hashtag_tokens: "findall_hashtag s = map (token_at s) (hashtag_starts s)"
proof (induction s rule: findall_hashtag.induct)
  case 1
  show ?case by (simp add: hashtag_starts_def)
next
  case (2 c cs)
  show ?case
  proof (cases "c = CHR ''#'' \<and> takeWhile is_word_char cs \<noteq> []")
    case True
    with 2 show ?thesis by (simp add: tokens_Cons tokens_dropWhile)
  next
    case False
    with 2 show ?thesis by (auto simp: tokens_Cons)
  qed
qed

lemma hashtags_example:
  "hashtags (Some ''a #b1 ##c_d #e#f # g #b1 #'') = [''#b1'', ''#c_d'', ''#e'', ''#f'', ''#b1'']"
  by code_simp

text \<open>
  C7: the hashtags of a record are, place by place from left to right, the hashtag at every
  place of the post text where a \<^verbatim>\<open>#\<close> is followed by a word character, each being the
  \<^verbatim>\<open>#\<close> with the longest run of word characters behind it: one entry per occurrence, so
  a repeated hashtag appears as often as it occurs. The result is always a list, the empty
  one for a text without hashtags and for the empty cell.
\<close>

theorem hashtags_in_order_of_occurrence:
  "hashtags (Some text) = map (token_at text) (hashtag_starts text) \<and> hashtags None = []"
proof -
  have "hashtags None = []" by code_simp
  then show ?thesis by (simp add: hashtags_def py_str_def findall_hashtag_tokens)
qed

end
